theory Spec2Isabelle
  imports Complex_Main "HOL-Library.Log_Nat"
begin

section \<open>Python numbers as \<^verbatim>\<open>procrastinate/retry.py\<close> uses them\<close>

text \<open>
  The module computes with Python \<^verbatim>\<open>int\<close> (unbounded, modelled as \<^typ>\<open>int\<close>) and
  Python \<^verbatim>\<open>float\<close> (IEEE binary64). A float is modelled by its value: a finite real
  (the value of a double), one of the two infinities, or not-a-number. The two zeros
  are one value (they compare equal in Python).
\<close>

datatype py_error =
    NotImplementedError | OverflowError | ZeroDivisionError | ValueError
  | TypeError | AttributeError | UnboundLocalError

datatype pyfloat = Fin real | PInf | NInf | NaN

text \<open>
  The least magnitude that rounds to infinity under round-to-nearest:
  \<open>2 ^ 1024 - 2 ^ 970\<close>, half an ulp above the largest finite double.
\<close>

definition ovf :: real where
  "ovf = 2 ^ 1024 - 2 ^ 970"

text \<open>The exact power of a non-zero real with an integer exponent.\<close>

definition real_pow_int :: "real \<Rightarrow> int \<Rightarrow> real" where
  "real_pow_int x n = (if 0 \<le> n then x ^ nat n else inverse (x ^ nat (- n)))"

text \<open>
  Rounding to binary64, to nearest with ties to even. \<open>ilog2 x\<close> is the binary
  exponent \<open>\<lfloor>log\<^sub>2 x\<rfloor>\<close> of a positive \<open>x\<close>, computed from bit lengths
  (\<^const>\<open>floorlog\<close> \<open>2 n\<close> is the bit length of \<open>n\<close>). A double has 53 significant
  bits, so the spacing of the doubles around \<open>x\<close> is \<open>2 ^ (ilog2 x - 52)\<close>, and never
  less than \<open>2 ^ - 1074\<close>, the spacing of the subnormal numbers.
\<close>

definition ilog2 :: "real \<Rightarrow> int" where
  "ilog2 x = (if 1 \<le> x then int (floorlog 2 (nat \<lfloor>x\<rfloor>)) - 1
              else - int (floorlog 2 (nat (\<lceil>1 / x\<rceil> - 1))))"

definition round_half_even :: "real \<Rightarrow> int" where
  "round_half_even y =
     (let f = \<lfloor>y\<rfloor>; r = y - real_of_int f
      in if r < 1 / 2 then f else if 1 / 2 < r then f + 1 else if even f then f else f + 1)"

definition nearest_double :: "real \<Rightarrow> real" where
  "nearest_double x =
     (if x = 0 then 0
      else
        let k = max (ilog2 \<bar>x\<bar> - 52) (- 1074)
        in sgn x * real_of_int (round_half_even (\<bar>x\<bar> / real_pow_int 2 k)) * real_pow_int 2 k)"

text \<open>
  The result of an IEEE operation whose exact value is \<open>x\<close>: an infinity from the
  threshold on, the nearest double below it.
\<close>

definition rnd :: "real \<Rightarrow> pyfloat" where
  "rnd x = (if ovf \<le> x then PInf else if x \<le> - ovf then NInf else Fin (nearest_double x))"

text \<open>
  \<^verbatim>\<open>PyLong_AsDouble\<close>, which converts the \<^verbatim>\<open>int\<close> operand of a mixed operation to
  the nearest double and raises "int too large to convert to float" from the threshold
  on.
\<close>

definition int_to_float :: "int \<Rightarrow> py_error + pyfloat" where
  "int_to_float n =
     (if ovf \<le> \<bar>real_of_int n\<bar> then Inl OverflowError
      else Inr (Fin (nearest_double (real_of_int n))))"

text \<open>\<^verbatim>\<open>float + float\<close>: never raises; an overflow gives an infinity.\<close>

fun float_add :: "pyfloat \<Rightarrow> pyfloat \<Rightarrow> pyfloat" where
  "float_add NaN y = NaN"
| "float_add x NaN = NaN"
| "float_add PInf NInf = NaN"
| "float_add NInf PInf = NaN"
| "float_add PInf y = PInf"
| "float_add NInf y = NInf"
| "float_add x PInf = PInf"
| "float_add x NInf = NInf"
| "float_add (Fin x) (Fin y) = rnd (x + y)"

text \<open>An infinity times a finite value: the sign rule, and \<open>inf * 0 = nan\<close>.\<close>

definition inf_times :: "bool \<Rightarrow> real \<Rightarrow> pyfloat" where
  "inf_times positive y =
     (if y = 0 then NaN else if (0 < y) = positive then PInf else NInf)"

text \<open>\<^verbatim>\<open>float * float\<close>: never raises either.\<close>

fun float_mul :: "pyfloat \<Rightarrow> pyfloat \<Rightarrow> pyfloat" where
  "float_mul NaN y = NaN"
| "float_mul x NaN = NaN"
| "float_mul PInf PInf = PInf"
| "float_mul PInf NInf = NInf"
| "float_mul NInf PInf = NInf"
| "float_mul NInf NInf = PInf"
| "float_mul PInf (Fin y) = inf_times True y"
| "float_mul NInf (Fin y) = inf_times False y"
| "float_mul (Fin x) PInf = inf_times True x"
| "float_mul (Fin x) NInf = inf_times False x"
| "float_mul (Fin x) (Fin y) = rnd (x * y)"

text \<open>
  CPython's \<^verbatim>\<open>float_pow\<close> for an exponent that is a whole number \<open>k\<close>, in the order
  of its cases: a zero exponent gives \<open>1.0\<close> whatever the base, also for \<open>0.0\<close>, an
  infinity and not-a-number; a zero base with a negative exponent raises
  \<^verbatim>\<open>ZeroDivisionError\<close>; a finite result out of range raises \<^verbatim>\<open>OverflowError\<close>, one
  too small for a double is \<open>0.0\<close>. The platform's \<^verbatim>\<open>pow\<close> is taken to return the
  double nearest to the exact power. It does whenever the exact power is a double (as
  are \<open>0.0 ** 0\<close>, \<open>2.0 ** 38\<close> and \<open>2.0 ** 53\<close>, the powers evaluated below);
  otherwise it can be off by one unit in the last place (\<open>10.0 ** 23\<close>), and no
  statement below depends on that place.
\<close>

definition float_pow_whole :: "pyfloat \<Rightarrow> int \<Rightarrow> py_error + pyfloat" where
  "float_pow_whole x k =
     (if k = 0 then Inr (Fin 1)
      else (case x of
         NaN \<Rightarrow> Inr NaN
       | PInf \<Rightarrow> Inr (if 0 < k then PInf else Fin 0)
       | NInf \<Rightarrow> Inr (if 0 < k then (if odd k then NInf else PInf) else Fin 0)
       | Fin b \<Rightarrow>
           if b = 0 then (if k < 0 then Inl ZeroDivisionError else Inr (Fin 0))
           else if ovf \<le> \<bar>real_pow_int b k\<bar> then Inl OverflowError
           else Inr (Fin (nearest_double (real_pow_int b k)))))"

text \<open>
  \<^verbatim>\<open>float ** int\<close>: the exponent is converted first, and the power is taken at the
  converted exponent, the whole number \<^verbatim>\<open>float(n)\<close>.
\<close>

definition float_pow_int :: "pyfloat \<Rightarrow> int \<Rightarrow> py_error + pyfloat" where
  "float_pow_int x n =
     (if ovf \<le> \<bar>real_of_int n\<bar> then Inl OverflowError
      else float_pow_whole x \<lfloor>nearest_double (real_of_int n)\<rfloor>)"

text \<open>
  A number is an \<^verbatim>\<open>int\<close> or a \<^verbatim>\<open>float\<close>. (A \<^verbatim>\<open>bool\<close> is an \<^verbatim>\<open>int\<close> in arithmetic,
  \<^verbatim>\<open>True\<close> being \<open>1\<close>.)
\<close>

datatype pynum = PyInt int | PyFloat pyfloat

text \<open>
  \<^verbatim>\<open>+\<close> and \<^verbatim>\<open>*\<close>: two ints give the exact int; when one operand is a float the
  other is converted to a float, which raises for an int out of range.
\<close>

fun py_add :: "pynum \<Rightarrow> pynum \<Rightarrow> py_error + pynum" where
  "py_add (PyInt i) (PyInt j) = Inr (PyInt (i + j))"
| "py_add (PyInt i) (PyFloat y) =
     (case int_to_float i of Inl e \<Rightarrow> Inl e | Inr x \<Rightarrow> Inr (PyFloat (float_add x y)))"
| "py_add (PyFloat x) (PyInt j) =
     (case int_to_float j of Inl e \<Rightarrow> Inl e | Inr y \<Rightarrow> Inr (PyFloat (float_add x y)))"
| "py_add (PyFloat x) (PyFloat y) = Inr (PyFloat (float_add x y))"

fun py_mul :: "pynum \<Rightarrow> pynum \<Rightarrow> py_error + pynum" where
  "py_mul (PyInt i) (PyInt j) = Inr (PyInt (i * j))"
| "py_mul (PyInt i) (PyFloat y) =
     (case int_to_float i of Inl e \<Rightarrow> Inl e | Inr x \<Rightarrow> Inr (PyFloat (float_mul x y)))"
| "py_mul (PyFloat x) (PyInt j) =
     (case int_to_float j of Inl e \<Rightarrow> Inl e | Inr y \<Rightarrow> Inr (PyFloat (float_mul x y)))"
| "py_mul (PyFloat x) (PyFloat y) = Inr (PyFloat (float_mul x y))"

text \<open>
  \<^verbatim>\<open>x ** n\<close> for an int exponent \<open>n\<close>: an int base with a non-negative exponent gives
  the exact int (\<open>0 ** 0\<close> is \<open>1\<close>); with a negative exponent the int base is converted
  and the power is the float power; a float base gives the float power.
\<close>

fun py_pow_int :: "pynum \<Rightarrow> int \<Rightarrow> py_error + pynum" where
  "py_pow_int (PyInt b) n =
     (if 0 \<le> n then Inr (PyInt (b ^ nat n))
      else (case int_to_float b of
              Inl e \<Rightarrow> Inl e
            | Inr x \<Rightarrow> (case float_pow_int x n of Inl e \<Rightarrow> Inl e | Inr p \<Rightarrow> Inr (PyFloat p))))"
| "py_pow_int (PyFloat x) n =
     (case float_pow_int x n of Inl e \<Rightarrow> Inl e | Inr p \<Rightarrow> Inr (PyFloat p))"

text \<open>
  \<^verbatim>\<open>==\<close> on numbers: an int and a float are compared by their exact values, and
  not-a-number equals nothing.
\<close>

fun py_eq :: "pynum \<Rightarrow> pynum \<Rightarrow> bool" where
  "py_eq (PyInt i) (PyInt j) = (i = j)"
| "py_eq (PyInt i) (PyFloat y) = (y = Fin (real_of_int i))"
| "py_eq (PyFloat x) (PyInt j) = (x = Fin (real_of_int j))"
| "py_eq (PyFloat x) (PyFloat y) = (x \<noteq> NaN \<and> x = y)"

section \<open>The retry strategy\<close>

text \<open>
  \<^verbatim>\<open>@attr.dataclass(kw_only=True) class RetryStrategy\<close> with its four attributes. The
  three waits are annotated \<^verbatim>\<open>float\<close> and default to \<open>0.0\<close>; the class has no
  converter, so an \<^verbatim>\<open>int\<close> given for one of them (\<^verbatim>\<open>wait=3\<close>, as the docstring
  writes) is stored as an \<^verbatim>\<open>int\<close>.
\<close>

record RetryStrategy =
  max_attempts :: "int option"
  wait :: pynum
  linear_wait :: pynum
  exponential_wait :: pynum

text \<open>\<^verbatim>\<open>RetryStrategy()\<close>: every attribute at its default.\<close>

definition RetryStrategy_default :: RetryStrategy where
  "RetryStrategy_default =
     \<lparr>max_attempts = None, wait = PyFloat (Fin 0), linear_wait = PyFloat (Fin 0),
      exponential_wait = PyFloat (Fin 0)\<rparr>"

text \<open>
  The condition \<^verbatim>\<open>self.max_attempts and attempts >= self.max_attempts\<close>: \<^verbatim>\<open>None\<close>
  and \<open>0\<close> are falsy, so the comparison is only made for a non-zero limit.
\<close>

definition limit_reached :: "int option \<Rightarrow> int \<Rightarrow> bool" where
  "limit_reached m attempts =
     (case m of None \<Rightarrow> False | Some k \<Rightarrow> k \<noteq> 0 \<and> k \<le> attempts)"

text \<open>
  \<^verbatim>\<open>RetryStrategy.get_schedule_in\<close>, statement by statement: the local \<^verbatim>\<open>wait\<close>
  starts at \<^verbatim>\<open>self.wait\<close>, then the linear and the exponential term are added to it.
  \<open>Inl\<close> is a raised exception, \<open>Inr None\<close> the return of \<^verbatim>\<open>None\<close>.
\<close>

definition get_schedule_in :: "RetryStrategy \<Rightarrow> int \<Rightarrow> py_error + pynum option" where
  "get_schedule_in self attempts =
     (if limit_reached (max_attempts self) attempts then Inr None
      else
        let w0 = wait self in
        (case py_mul (linear_wait self) (PyInt attempts) of
           Inl e \<Rightarrow> Inl e
         | Inr t1 \<Rightarrow>
             (case py_add w0 t1 of
                Inl e \<Rightarrow> Inl e
              | Inr w1 \<Rightarrow>
                  (case py_pow_int (exponential_wait self) attempts of
                     Inl e \<Rightarrow> Inl e
                   | Inr t2 \<Rightarrow>
                       (case py_add w1 t2 of
                          Inl e \<Rightarrow> Inl e
                        | Inr w2 \<Rightarrow> Inr (Some w2))))))"


text \<open>
  Two conditions under which the arithmetic of \<^const>\<open>get_schedule_in\<close> cannot raise
  for a non-negative \<^verbatim>\<open>attempts\<close>. The first: the three waits are ints, so that all
  of it is int arithmetic. The second: \<^verbatim>\<open>attempts\<close> is at most \<open>2 ^ 53\<close> (it converts
  to a float as it is); every int that may meet a float (\<^verbatim>\<open>wait\<close>,
  \<^verbatim>\<open>linear_wait * attempts\<close>, their sum, \<^verbatim>\<open>exponential_wait ** attempts\<close>, where these
  are ints) is below the threshold in magnitude; and the exact power of a float
  \<^verbatim>\<open>exponential_wait\<close> that is finite and not zero, for \<^verbatim>\<open>attempts\<close> not zero, is at
  most \<open>2 ^ 1023\<close> in magnitude, which leaves the platform's \<^verbatim>\<open>pow\<close> a margin below
  the threshold.
\<close>

fun is_int :: "pynum \<Rightarrow> bool" where
  "is_int (PyInt i) = True"
| "is_int (PyFloat x) = False"

definition all_int :: "RetryStrategy \<Rightarrow> bool" where
  "all_int self =
     (is_int (wait self) \<and> is_int (linear_wait self) \<and> is_int (exponential_wait self))"

definition int_in_range :: "int \<Rightarrow> bool" where
  "int_in_range n = (\<bar>real_of_int n\<bar> < ovf)"

definition pow_in_range :: "pyfloat \<Rightarrow> int \<Rightarrow> bool" where
  "pow_in_range x n =
     (case x of Fin b \<Rightarrow> b = 0 \<or> n = 0 \<or> \<bar>b ^ nat n\<bar> \<le> 2 ^ 1023 | _ \<Rightarrow> True)"

definition arith_in_range :: "RetryStrategy \<Rightarrow> int \<Rightarrow> bool" where
  "arith_in_range self attempts =
     (attempts \<le> 2 ^ 53
      \<and> (case wait self of PyInt w \<Rightarrow> int_in_range w | PyFloat _ \<Rightarrow> True)
      \<and> (case linear_wait self of
            PyInt l \<Rightarrow>
              int_in_range (l * attempts)
              \<and> (case wait self of
                    PyInt w \<Rightarrow> int_in_range (w + l * attempts)
                  | PyFloat _ \<Rightarrow> True)
          | PyFloat _ \<Rightarrow> True)
      \<and> (case exponential_wait self of
            PyInt b \<Rightarrow> int_in_range (b ^ nat attempts)
          | PyFloat x \<Rightarrow> pow_in_range x attempts))"

section \<open>The method as statements on a state\<close>

text \<open>
  For the claim about effects the method is also written as a list of statements that
  run on the state of a call: the attribute dictionary of \<^verbatim>\<open>self\<close> and the local
  variables, which hold \<^verbatim>\<open>None\<close> or a number. A statement can bind a local variable,
  add to one, store into an attribute of \<^verbatim>\<open>self\<close>, return \<^verbatim>\<open>None\<close> on a condition,
  or return a variable; the right-hand sides read the state.
\<close>

datatype pyval = PyNone | PyNum pynum

record call_state =
  self_dict :: "string \<Rightarrow> pyval option"
  local_vars :: "string \<Rightarrow> pyval option"

datatype stmt =
    Assign_local string "call_state \<Rightarrow> py_error + pyval"
  | Aug_add_local string "call_state \<Rightarrow> py_error + pyval"
  | Assign_attr string "call_state \<Rightarrow> py_error + pyval"
  | If_return_None "call_state \<Rightarrow> py_error + bool"
  | Return_local string

text \<open>The operators on values: \<^verbatim>\<open>None\<close> as an operand is a \<^verbatim>\<open>TypeError\<close>.\<close>

fun val_add :: "pyval \<Rightarrow> pyval \<Rightarrow> py_error + pyval" where
  "val_add (PyNum x) (PyNum y) = (case py_add x y of Inl e \<Rightarrow> Inl e | Inr z \<Rightarrow> Inr (PyNum z))"
| "val_add (PyNum x) PyNone = Inl TypeError"
| "val_add PyNone y = Inl TypeError"

fun val_mul_int :: "pyval \<Rightarrow> int \<Rightarrow> py_error + pyval" where
  "val_mul_int (PyNum x) n =
     (case py_mul x (PyInt n) of Inl e \<Rightarrow> Inl e | Inr z \<Rightarrow> Inr (PyNum z))"
| "val_mul_int PyNone n = Inl TypeError"

fun val_pow_int :: "pyval \<Rightarrow> int \<Rightarrow> py_error + pyval" where
  "val_pow_int (PyNum x) n =
     (case py_pow_int x n of Inl e \<Rightarrow> Inl e | Inr z \<Rightarrow> Inr (PyNum z))"
| "val_pow_int PyNone n = Inl TypeError"

text \<open>
  Running a block: the outcome (an exception or the returned value) and the state the
  call leaves. An augmented assignment reads the variable, evaluates the right-hand side,
  adds and rebinds the variable; the end of the block returns \<^verbatim>\<open>None\<close>.
\<close>

fun exec :: "stmt list \<Rightarrow> call_state \<Rightarrow> (py_error + pyval) \<times> call_state" where
  "exec [] st = (Inr PyNone, st)"
| "exec (Assign_local x rhs # rest) st =
     (case rhs st of
        Inl e \<Rightarrow> (Inl e, st)
      | Inr v \<Rightarrow> exec rest (st\<lparr>local_vars := (local_vars st)(x \<mapsto> v)\<rparr>))"
| "exec (Aug_add_local x rhs # rest) st =
     (case local_vars st x of
        None \<Rightarrow> (Inl UnboundLocalError, st)
      | Some old \<Rightarrow>
          (case rhs st of
             Inl e \<Rightarrow> (Inl e, st)
           | Inr v \<Rightarrow>
               (case val_add old v of
                  Inl e \<Rightarrow> (Inl e, st)
                | Inr new \<Rightarrow> exec rest (st\<lparr>local_vars := (local_vars st)(x \<mapsto> new)\<rparr>))))"
| "exec (Assign_attr x rhs # rest) st =
     (case rhs st of
        Inl e \<Rightarrow> (Inl e, st)
      | Inr v \<Rightarrow> exec rest (st\<lparr>self_dict := (self_dict st)(x \<mapsto> v)\<rparr>))"
| "exec (If_return_None cond # rest) st =
     (case cond st of
        Inl e \<Rightarrow> (Inl e, st)
      | Inr b \<Rightarrow> if b then (Inr PyNone, st) else exec rest st)"
| "exec (Return_local x # rest) st =
     (case local_vars st x of
        None \<Rightarrow> (Inl UnboundLocalError, st)
      | Some v \<Rightarrow> (Inr v, st))"

text \<open>Whether a statement stores into an attribute of \<^verbatim>\<open>self\<close>.\<close>

fun stores_attr :: "stmt \<Rightarrow> bool" where
  "stores_attr (Assign_attr x rhs) = True"
| "stores_attr (Assign_local x rhs) = False"
| "stores_attr (Aug_add_local x rhs) = False"
| "stores_attr (If_return_None cond) = False"
| "stores_attr (Return_local x) = False"

text \<open>
  Reading \<^verbatim>\<open>self.name\<close>, and the test
  \<^verbatim>\<open>self.max_attempts and attempts >= self.max_attempts\<close> on whatever the attribute
  holds: \<^verbatim>\<open>None\<close> and zero are falsy; an int is compared with a float by value.
\<close>

definition attr :: "call_state \<Rightarrow> string \<Rightarrow> py_error + pyval" where
  "attr st name = (case self_dict st name of None \<Rightarrow> Inl AttributeError | Some v \<Rightarrow> Inr v)"

fun num_truthy :: "pynum \<Rightarrow> bool" where
  "num_truthy (PyInt k) = (k \<noteq> 0)"
| "num_truthy (PyFloat x) = (x \<noteq> Fin 0)"

fun int_ge :: "int \<Rightarrow> pynum \<Rightarrow> bool" where
  "int_ge a (PyInt k) = (k \<le> a)"
| "int_ge a (PyFloat (Fin y)) = (y \<le> real_of_int a)"
| "int_ge a (PyFloat PInf) = False"
| "int_ge a (PyFloat NInf) = True"
| "int_ge a (PyFloat NaN) = False"

definition limit_test :: "int \<Rightarrow> call_state \<Rightarrow> py_error + bool" where
  "limit_test attempts st =
     (case self_dict st ''max_attempts'' of
        None \<Rightarrow> Inl AttributeError
      | Some PyNone \<Rightarrow> Inr False
      | Some (PyNum m) \<Rightarrow> Inr (num_truthy m \<and> int_ge attempts m))"

text \<open>The body of \<^verbatim>\<open>get_schedule_in\<close>, lines 79 to 84, for the argument \<^verbatim>\<open>attempts\<close>.\<close>

definition get_schedule_in_body :: "int \<Rightarrow> stmt list" where
  "get_schedule_in_body attempts =
     [If_return_None (limit_test attempts),
      Assign_local ''wait'' (\<lambda>st. attr st ''wait''),
      Aug_add_local ''wait''
        (\<lambda>st. case attr st ''linear_wait'' of
                 Inl e \<Rightarrow> Inl e
               | Inr l \<Rightarrow> val_mul_int l attempts),
      Aug_add_local ''wait''
        (\<lambda>st. case attr st ''exponential_wait'' of
                 Inl e \<Rightarrow> Inl e
               | Inr b \<Rightarrow> val_pow_int b attempts),
      Return_local ''wait'']"

text \<open>
  The attribute dictionary of a strategy object, and the outcome of
  \<^const>\<open>get_schedule_in\<close> as a returned value.
\<close>

definition object_of :: "RetryStrategy \<Rightarrow> string \<Rightarrow> pyval option" where
  "object_of s =
     [''max_attempts'' \<mapsto> (case max_attempts s of None \<Rightarrow> PyNone | Some m \<Rightarrow> PyNum (PyInt m)),
      ''wait'' \<mapsto> PyNum (wait s),
      ''linear_wait'' \<mapsto> PyNum (linear_wait s),
      ''exponential_wait'' \<mapsto> PyNum (exponential_wait s)]"

definition returned :: "py_error + pynum option \<Rightarrow> py_error + pyval" where
  "returned outcome =
     (case outcome of
        Inl e \<Rightarrow> Inl e
      | Inr None \<Rightarrow> Inr PyNone
      | Inr (Some d) \<Rightarrow> Inr (PyNum d))"

section \<open>The base class\<close>

text \<open>
  A strategy is a subclass of \<^verbatim>\<open>BaseRetryStrategy\<close> that implements
  \<^verbatim>\<open>get_schedule_in\<close>; it is modelled by that method, a function from the attempt
  count to the outcome. The base class's own method raises.
\<close>

type_synonym strategy = "int \<Rightarrow> py_error + pynum option"

definition BaseRetryStrategy_get_schedule_in :: strategy where
  "BaseRetryStrategy_get_schedule_in attempts = Inl NotImplementedError"

text \<open>
  Modelled from the spec: \<^verbatim>\<open>exceptions.JobRetry\<close> is defined in
  \<^verbatim>\<open>procrastinate/exceptions.py\<close>; it is the decision to retry, carrying the absolute
  timestamp at which the job is scheduled again.
\<close>

datatype 't JobRetry = JobRetry (scheduled_at: 't)

text \<open>
  \<^verbatim>\<open>BaseRetryStrategy.get_retry_exception\<close>. The library \<^verbatim>\<open>pendulum\<close> is taken as two
  parameters: \<open>now\<close>, what \<^verbatim>\<open>pendulum.now("UTC")\<close> returns when the method reads the
  clock, and \<open>add_seconds\<close>, the timestamp's \<^verbatim>\<open>add(seconds=...)\<close>, which returns a
  timestamp or raises.
\<close>

definition get_retry_exception ::
  "strategy \<Rightarrow> 't \<Rightarrow> ('t \<Rightarrow> pynum \<Rightarrow> py_error + 't) \<Rightarrow> int \<Rightarrow> py_error + 't JobRetry option" where
  "get_retry_exception strat now add_seconds attempts =
     (case strat attempts of
        Inl e \<Rightarrow> Inl e
      | Inr schedule_in \<Rightarrow>
          (case schedule_in of
             None \<Rightarrow> Inr None
           | Some seconds \<Rightarrow>
               (case add_seconds now seconds of
                  Inl e \<Rightarrow> Inl e
                | Inr schedule_at \<Rightarrow> Inr (Some (JobRetry schedule_at)))))"

text \<open>
  An instance of the two parameters, with the range of a timestamp written out. A
  pendulum \<^verbatim>\<open>DateTime\<close> is a \<^verbatim>\<open>datetime.datetime\<close>: it counts microseconds and ends
  at \<^verbatim>\<open>9999-12-31T23:59:59.999999\<close>; adding seconds ends in
  \<^verbatim>\<open>datetime + timedelta(...)\<close>, which raises \<^verbatim>\<open>OverflowError\<close> ("date value out of
  range") past either end. A timestamp is the number of microseconds since
  \<^verbatim>\<open>0001-01-01T00:00:00\<close> UTC; \<open>3652059\<close> is the number of days up to the last one.
  \<^verbatim>\<open>timedelta\<close> takes the whole seconds of a float as they are and rounds the rest,
  in microseconds, half to even; an infinite delay raises \<^verbatim>\<open>OverflowError\<close> and
  not-a-number \<^verbatim>\<open>ValueError\<close>.
\<close>

definition datetime_max :: int where
  "datetime_max = 3652059 * 86400 * 1000000 - 1"

definition timedelta_microseconds :: "pynum \<Rightarrow> py_error + int" where
  "timedelta_microseconds seconds =
     (case seconds of
        PyInt i \<Rightarrow> Inr (i * 1000000)
      | PyFloat NaN \<Rightarrow> Inl ValueError
      | PyFloat PInf \<Rightarrow> Inl OverflowError
      | PyFloat NInf \<Rightarrow> Inl OverflowError
      | PyFloat (Fin x) \<Rightarrow>
          let whole = (if 0 \<le> x then \<lfloor>x\<rfloor> else \<lceil>x\<rceil>);
              rest = nearest_double (1000000 * (x - real_of_int whole))
          in Inr (whole * 1000000 + round_half_even rest))"

definition datetime_add :: "int \<Rightarrow> pynum \<Rightarrow> py_error + int" where
  "datetime_add t seconds =
     (case timedelta_microseconds seconds of
        Inl e \<Rightarrow> Inl e
      | Inr us \<Rightarrow>
          if t + us < 0 \<or> datetime_max < t + us then Inl OverflowError else Inr (t + us))"

text \<open>\<^verbatim>\<open>2026-01-01T00:00:00\<close> UTC, day \<open>739616\<close> after the first.\<close>

definition new_year_2026 :: int where
  "new_year_2026 = 739616 * 86400 * 1000000"

section \<open>Normalising a retry value\<close>

text \<open>\<^verbatim>\<open>RetryValue = Union[bool, int, RetryStrategy]\<close>\<close>

datatype RetryValue = RetryBool bool | RetryInt int | RetryObj RetryStrategy

text \<open>
  Truth value testing, for \<^verbatim>\<open>not retry\<close>: \<^verbatim>\<open>False\<close> and \<open>0\<close> are falsy; an instance
  of the attrs class defines neither \<^verbatim>\<open>__bool__\<close> nor \<^verbatim>\<open>__len__\<close> and is truthy.
\<close>

fun truthy :: "RetryValue \<Rightarrow> bool" where
  "truthy (RetryBool b) = b"
| "truthy (RetryInt n) = (n \<noteq> 0)"
| "truthy (RetryObj s) = True"

text \<open>
  \<^verbatim>\<open>get_retry_strategy\<close>. \<^verbatim>\<open>retry is True\<close> holds for the boolean \<^verbatim>\<open>True\<close> only;
  \<^verbatim>\<open>isinstance(retry, int)\<close> holds for an \<^verbatim>\<open>int\<close> and for a \<^verbatim>\<open>bool\<close>, a subclass of
  \<^verbatim>\<open>int\<close>; what is left is returned as it is.
\<close>

definition get_retry_strategy :: "RetryValue \<Rightarrow> RetryStrategy option" where
  "get_retry_strategy retry =
     (if \<not> truthy retry then None
      else if retry = RetryBool True then Some RetryStrategy_default
      else (case retry of
              RetryBool b \<Rightarrow>
                Some (RetryStrategy_default\<lparr>max_attempts := Some (if b then 1 else 0)\<rparr>)
            | RetryInt n \<Rightarrow> Some (RetryStrategy_default\<lparr>max_attempts := Some n\<rparr>)
            | RetryObj s \<Rightarrow> Some s))"

section \<open>Facts about rounding and the float operations\<close>

lemma round_half_even_of_int: "round_half_even (real_of_int j) = j"
  by (simp add: round_half_even_def)

lemma ilog2_int_bounds:
  assumes "n \<noteq> 0"
  shows "(2::int) ^ nat (ilog2 \<bar>real_of_int n\<bar>) \<le> \<bar>n\<bar> \<and> \<bar>n\<bar> < 2 ^ nat (ilog2 \<bar>real_of_int n\<bar> + 1)
    \<and> 0 \<le> ilog2 \<bar>real_of_int n\<bar>"
proof -
  from assms have pos: "0 < nat \<bar>n\<bar>" by simp
  from assms have one: "1 \<le> \<bar>real_of_int n\<bar>"
    by (metis of_int_abs of_int_1_le_iff zero_less_abs_iff int_one_le_iff_zero_less)
  have fl: "nat \<lfloor>\<bar>real_of_int n\<bar>\<rfloor> = nat \<bar>n\<bar>"
    by (metis floor_of_int of_int_abs)
  from one have e: "ilog2 \<bar>real_of_int n\<bar> = int (floorlog 2 (nat \<bar>n\<bar>)) - 1"
    by (simp only: ilog2_def fl if_True)
  from pos have ge1: "1 \<le> floorlog 2 (nat \<bar>n\<bar>)"
    by (simp add: floorlog_def)
  from floorlog_bounds [OF pos, of 2]
  have b: "2 ^ (floorlog 2 (nat \<bar>n\<bar>) - 1) \<le> nat \<bar>n\<bar>" "nat \<bar>n\<bar> < 2 ^ floorlog 2 (nat \<bar>n\<bar>)"
    by simp_all
  from ge1 have n1: "nat (int (floorlog 2 (nat \<bar>n\<bar>)) - 1) = floorlog 2 (nat \<bar>n\<bar>) - 1"
    by simp
  from ge1 have n2: "nat (int (floorlog 2 (nat \<bar>n\<bar>)) - 1 + 1) = floorlog 2 (nat \<bar>n\<bar>)"
    by simp
  from b(1) have "(2::int) ^ (floorlog 2 (nat \<bar>n\<bar>) - 1) \<le> \<bar>n\<bar>"
    by (metis abs_ge_zero int_nat_eq of_nat_le_iff of_nat_numeral of_nat_power)
  moreover from b(2) have "\<bar>n\<bar> < (2::int) ^ floorlog 2 (nat \<bar>n\<bar>)"
    by (metis abs_ge_zero int_nat_eq of_nat_less_iff of_nat_numeral of_nat_power)
  moreover from ge1 have "0 \<le> int (floorlog 2 (nat \<bar>n\<bar>)) - 1" by simp
  ultimately show ?thesis
    by (simp only: e n1 n2)
qed

lemma nearest_double_of_int:
  assumes "\<bar>n\<bar> \<le> 2 ^ 53"
  shows "nearest_double (real_of_int n) = real_of_int n"
proof (cases "n = 0")
  case True
  then show ?thesis by (simp add: nearest_double_def)
next
  case False
  define e where "e = ilog2 \<bar>real_of_int n\<bar>"
  from ilog2_int_bounds [OF False]
  have lo: "(2::int) ^ nat e \<le> \<bar>n\<bar>" and hi: "\<bar>n\<bar> < 2 ^ nat (e + 1)" and e0: "0 \<le> e"
    by (simp_all add: e_def)
  have e53: "e \<le> 53"
  proof (rule ccontr)
    assume "\<not> e \<le> 53"
    then have "54 \<le> nat e" by simp
    then have "(2::int) ^ 54 \<le> 2 ^ nat e"
      by (intro power_increasing) simp_all
    with lo assms show False by simp
  qed
  from e0 have k: "max (e - 52) (- 1074) = e - 52" by simp
  have x0: "real_of_int n \<noteq> 0" using False by simp
  have sg: "sgn (real_of_int n) * \<bar>real_of_int n\<bar> = real_of_int n"
    by (simp add: sgn_mult_abs)
  show ?thesis
  proof (cases "e \<le> 52")
    case True
    define c where "c = nat (52 - e)"
    from True have p: "real_pow_int 2 (e - 52) = inverse (2 ^ c)"
      by (cases "e = 52") (simp_all add: real_pow_int_def c_def)
    have q: "\<bar>real_of_int n\<bar> / inverse (2 ^ c) = real_of_int (\<bar>n\<bar> * 2 ^ c)"
      by (simp add: divide_inverse)
    have "nearest_double (real_of_int n)
        = sgn (real_of_int n) * real_of_int (\<bar>n\<bar> * 2 ^ c) * inverse (2 ^ c)"
      using x0 by (simp only: nearest_double_def Let_def e_def [symmetric] k p q
          round_half_even_of_int if_False)
    also have "\<dots> = sgn (real_of_int n) * \<bar>real_of_int n\<bar>"
      by simp
    finally show ?thesis by (simp only: sg)
  next
    case False
    with e53 have e: "e = 53" by simp
    with lo assms have n: "\<bar>n\<bar> = 2 ^ 53" by simp
    have p: "real_pow_int 2 (e - 52) = 2"
      by (simp add: e real_pow_int_def)
    from n have an: "\<bar>real_of_int n\<bar> = 2 ^ 53"
      by (metis of_int_abs of_int_numeral of_int_power)
    have q: "\<bar>real_of_int n\<bar> / 2 = real_of_int (2 ^ 52)"
      by (simp add: an)
    have "nearest_double (real_of_int n) = sgn (real_of_int n) * real_of_int (2 ^ 52) * 2"
      using x0 by (simp only: nearest_double_def Let_def e_def [symmetric] k p q
          round_half_even_of_int if_False)
    also have "\<dots> = sgn (real_of_int n) * \<bar>real_of_int n\<bar>"
      by (simp add: an)
    finally show ?thesis by (simp only: sg)
  qed
qed

lemma nearest_double_numeral:
  "numeral w \<le> (2::int) ^ 53 \<Longrightarrow> nearest_double (numeral w) = numeral w"
  using nearest_double_of_int [of "numeral w"] by simp

lemma nearest_double_0: "nearest_double 0 = 0"
  by (simp add: nearest_double_def)

lemma nearest_double_1: "nearest_double 1 = 1"
  using nearest_double_of_int [of 1] by simp

text \<open>
  Two ties: \<open>2 ^ 53 + 1\<close> and \<open>10 ^ 16 + 1\<close> lie halfway between two doubles and
  go to the even one, as \<open>1.0 + 2.0 ** 53\<close> and \<open>1e16 + 1.0\<close> do in Python.
\<close>

lemma nearest_double_tie: "nearest_double 9007199254740993 = 9007199254740992"
  by (simp add: nearest_double_def ilog2_def compute_floorlog round_half_even_def real_pow_int_def)

lemma nearest_double_tie_16: "nearest_double 10000000000000001 = 10000000000000000"
  by (simp add: nearest_double_def ilog2_def compute_floorlog round_half_even_def real_pow_int_def)

lemma two_53_below_ovf: "(2::real) ^ 53 < ovf"
  by (simp add: ovf_def)

lemma two_1023_below_ovf: "(2::real) ^ 1023 < ovf"
  by (simp add: ovf_def)

lemma exact_int_in_range:
  assumes "\<bar>n\<bar> \<le> 2 ^ 53"
  shows "int_in_range n"
proof -
  from assms have "real_of_int \<bar>n\<bar> \<le> real_of_int (2 ^ 53)"
    by (rule of_int_le_iff [THEN iffD2])
  then have "\<bar>real_of_int n\<bar> \<le> 2 ^ 53" by simp
  with two_53_below_ovf show ?thesis
    by (simp add: int_in_range_def)
qed

lemma int_to_float_in_range:
  "int_in_range n \<Longrightarrow> int_to_float n = Inr (Fin (nearest_double (real_of_int n)))"
  by (simp add: int_in_range_def int_to_float_def)

lemma int_to_float_out_of_range:
  "\<not> int_in_range n \<Longrightarrow> int_to_float n = Inl OverflowError"
  by (simp add: int_in_range_def int_to_float_def)

lemma int_to_float_exact:
  "\<bar>n\<bar> \<le> 2 ^ 53 \<Longrightarrow> int_to_float n = Inr (Fin (real_of_int n))"
  by (simp add: int_to_float_in_range exact_int_in_range nearest_double_of_int)

lemma float_pow_int_exact:
  assumes "\<bar>n\<bar> \<le> 2 ^ 53"
  shows "float_pow_int x n = float_pow_whole x n"
proof -
  from exact_int_in_range [OF assms] have "\<not> ovf \<le> \<bar>real_of_int n\<bar>"
    by (simp add: int_in_range_def)
  with nearest_double_of_int [OF assms] show ?thesis
    by (simp add: float_pow_int_def)
qed

lemma float_pow_whole_returns:
  assumes "0 \<le> n" and "pow_in_range x n"
  shows "\<exists>t. float_pow_whole x n = Inr t"
proof (cases x)
  case (Fin b)
  show ?thesis
  proof (cases "b = 0 \<or> n = 0")
    case True
    with Fin assms(1) show ?thesis
      by (auto simp: float_pow_whole_def)
  next
    case False
    with Fin assms(2) have "\<bar>b ^ nat n\<bar> \<le> 2 ^ 1023"
      by (simp add: pow_in_range_def)
    with two_1023_below_ovf have "\<not> ovf \<le> \<bar>real_pow_int b n\<bar>"
      using assms(1) by (simp add: real_pow_int_def)
    with Fin False show ?thesis
      by (simp add: float_pow_whole_def)
  qed
qed (simp_all add: float_pow_whole_def)

lemma float_pow_int_returns:
  assumes "0 \<le> n" and "n \<le> 2 ^ 53" and "pow_in_range x n"
  shows "\<exists>t. float_pow_int x n = Inr t"
proof -
  from assms(1,2) have "\<bar>n\<bar> \<le> 2 ^ 53" by simp
  then show ?thesis
    using float_pow_whole_returns [OF assms(1,3)] by (simp add: float_pow_int_exact)
qed

lemma py_add_int_float:
  "int_in_range i \<Longrightarrow> \<exists>z. py_add (PyInt i) (PyFloat y) = Inr (PyFloat z)"
  by (simp add: int_to_float_in_range)

lemma py_add_float_int:
  "int_in_range j \<Longrightarrow> \<exists>z. py_add (PyFloat x) (PyInt j) = Inr (PyFloat z)"
  by (simp add: int_to_float_in_range)



lemma get_schedule_in_limit:
  "limit_reached (max_attempts s) a \<Longrightarrow> get_schedule_in s a = Inr None"
  by (simp add: get_schedule_in_def)

lemma get_schedule_in_all_int:
  assumes "0 \<le> a" and "\<not> limit_reached (max_attempts s) a"
    and "wait s = PyInt w" and "linear_wait s = PyInt l" and "exponential_wait s = PyInt b"
  shows "get_schedule_in s a = Inr (Some (PyInt (w + l * a + b ^ nat a)))"
  using assms by (simp add: get_schedule_in_def Let_def)

lemma get_schedule_in_in_range:
  assumes a0: "0 \<le> a" and nl: "\<not> limit_reached (max_attempts s) a" and r: "arith_in_range s a"
  shows "\<exists>d. get_schedule_in s a = Inr (Some d)"
proof -
  from r have a53: "a \<le> 2 ^ 53" by (simp add: arith_in_range_def)
  with a0 have abs53: "\<bar>a\<bar> \<le> 2 ^ 53" by simp
  have conv: "int_to_float a = Inr (Fin (real_of_int a))"
    by (rule int_to_float_exact [OF abs53])
  obtain t1 where t1: "py_mul (linear_wait s) (PyInt a) = Inr t1"
    and t1_int: "\<And>l. linear_wait s = PyInt l \<Longrightarrow> t1 = PyInt (l * a)"
    and t1_float: "\<And>x. linear_wait s = PyFloat x \<Longrightarrow> \<exists>y. t1 = PyFloat y"
    by (cases "linear_wait s") (simp_all add: conv)
  obtain w1 where w1: "py_add (wait s) t1 = Inr w1"
    and w1_int: "\<And>i. w1 = PyInt i \<Longrightarrow> \<exists>w l. wait s = PyInt w \<and> linear_wait s = PyInt l \<and> i = w + l * a"
  proof (cases "wait s")
    case (PyInt w)
    show ?thesis
    proof (cases "linear_wait s")
      case (PyInt l)
      with \<open>wait s = PyInt w\<close> t1_int [OF PyInt] that show ?thesis by simp
    next
      case (PyFloat x)
      from t1_float [OF PyFloat] obtain y where y: "t1 = PyFloat y" ..
      from r \<open>wait s = PyInt w\<close> have "int_in_range w" by (simp add: arith_in_range_def)
      with \<open>wait s = PyInt w\<close> y that show ?thesis by (simp add: int_to_float_in_range)
    qed
  next
    case (PyFloat x)
    show ?thesis
    proof (cases "linear_wait s")
      case (PyInt l)
      from r PyInt have "int_in_range (l * a)" by (simp add: arith_in_range_def)
      with PyFloat t1_int [OF PyInt] that show ?thesis by (simp add: int_to_float_in_range)
    next
      case (PyFloat y)
      from t1_float [OF PyFloat] obtain z where "t1 = PyFloat z" ..
      with \<open>wait s = PyFloat x\<close> that show ?thesis by simp
    qed
  qed
  obtain t2 where t2: "py_pow_int (exponential_wait s) a = Inr t2"
    and t2_int: "\<And>i. t2 = PyInt i \<Longrightarrow> int_in_range i"
  proof (cases "exponential_wait s")
    case (PyInt b)
    from r PyInt have "int_in_range (b ^ nat a)" by (simp add: arith_in_range_def)
    with PyInt a0 that show ?thesis by simp
  next
    case (PyFloat x)
    from r PyFloat have "pow_in_range x a" by (simp add: arith_in_range_def)
    from float_pow_int_returns [OF a0 a53 this] obtain p where "float_pow_int x a = Inr p" ..
    with PyFloat that show ?thesis by simp
  qed
  have "\<exists>w2. py_add w1 t2 = Inr w2"
  proof (cases w1)
    case (PyInt i)
    from w1_int [OF PyInt] r have "int_in_range i"
      by (auto simp: arith_in_range_def)
    with PyInt show ?thesis
      by (cases t2) (simp_all add: int_to_float_in_range)
  next
    case (PyFloat x)
    with t2_int show ?thesis
      by (cases t2) (simp_all add: int_to_float_in_range)
  qed
  then obtain w2 where "py_add w1 t2 = Inr w2" ..
  with nl t1 w1 t2 show ?thesis
    by (simp add: get_schedule_in_def Let_def)
qed

lemma get_schedule_in_returns:
  assumes "0 \<le> a" and "\<not> limit_reached (max_attempts s) a" and "all_int s \<or> arith_in_range s a"
  shows "\<exists>d. get_schedule_in s a = Inr (Some d)"
proof (cases "all_int s")
  case True
  then obtain w l b
    where "wait s = PyInt w" and "linear_wait s = PyInt l" and "exponential_wait s = PyInt b"
    by (cases "wait s"; cases "linear_wait s"; cases "exponential_wait s") (simp_all add: all_int_def)
  from get_schedule_in_all_int [OF assms(1,2) this] show ?thesis by blast
next
  case False
  with assms(3) have "arith_in_range s a" by simp
  from get_schedule_in_in_range [OF assms(1,2) this] show ?thesis .
qed

lemmas eval_defs = get_schedule_in_def RetryStrategy_default_def limit_reached_def
  int_to_float_def float_pow_int_def float_pow_whole_def rnd_def ovf_def real_pow_int_def
  nearest_double_0 nearest_double_1 nearest_double_numeral Let_def

lemma base_class_raises:
  "get_retry_exception BaseRetryStrategy_get_schedule_in now add_seconds a = Inl NotImplementedError"
  by (simp add: get_retry_exception_def BaseRetryStrategy_get_schedule_in_def)

lemma datetime_add_in_range:
  "timedelta_microseconds d = Inr us \<Longrightarrow> 0 \<le> t + us \<Longrightarrow> t + us \<le> datetime_max \<Longrightarrow>
     datetime_add t d = Inr (t + us)"
  by (simp add: datetime_add_def)

lemma datetime_add_out_of_range:
  "timedelta_microseconds d = Inr us \<Longrightarrow> datetime_max < t + us \<Longrightarrow>
     datetime_add t d = Inl OverflowError"
  by (simp add: datetime_add_def)

lemma get_retry_exception_raises:
  "strat a = Inl e \<Longrightarrow> get_retry_exception strat now add_seconds a = Inl e"
  by (simp add: get_retry_exception_def)

lemma default_strategy_later_attempts:
  assumes "0 < a" and "a \<le> 2 ^ 53"
  shows "get_schedule_in RetryStrategy_default a = Inr (Some (PyFloat (Fin 0)))"
proof -
  from assms have "\<bar>a\<bar> \<le> 2 ^ 53" by simp
  with assms(1) show ?thesis
    by (simp add: get_schedule_in_def RetryStrategy_default_def limit_reached_def Let_def
        int_to_float_exact float_pow_int_exact float_pow_whole_def rnd_def ovf_def nearest_double_0)
qed

lemma constant_wait_later_attempts:
  assumes "0 < a" and "a \<le> 2 ^ 53"
  shows "get_schedule_in (RetryStrategy_default\<lparr>wait := PyInt 3\<rparr>) a = Inr (Some (PyFloat (Fin 3)))"
proof -
  from assms have "\<bar>a\<bar> \<le> 2 ^ 53" by simp
  with assms(1) show ?thesis
    by (simp add: get_schedule_in_def RetryStrategy_default_def limit_reached_def Let_def
        int_to_float_exact float_pow_int_exact float_pow_whole_def rnd_def ovf_def
        nearest_double_0 nearest_double_numeral int_to_float_def)
qed

section \<open>Facts about the statements\<close>

lemma exec_keeps_attributes:
  "\<forall>c\<in>set prog. \<not> stores_attr c \<Longrightarrow> self_dict (snd (exec prog st)) = self_dict st"
proof (induction prog st rule: exec.induct)
  case (1 st)
  then show ?case by simp
next
  case (2 x rhs rest st)
  then show ?case by (simp split: sum.splits)
next
  case (3 x rhs rest st)
  then show ?case by (simp split: sum.splits option.splits)
next
  case (4 x rhs rest st)
  then show ?case by simp
next
  case (5 cond rest st)
  then show ?case by (simp split: sum.splits)
next
  case (6 x rest st)
  then show ?case by (simp split: option.splits)
qed

lemma body_stores_nothing: "\<forall>c\<in>set (get_schedule_in_body a). \<not> stores_attr c"
  by (simp add: get_schedule_in_body_def)

lemma limit_test_object:
  assumes "self_dict st ''max_attempts'' = object_of s ''max_attempts''"
  shows "limit_test a st = Inr (limit_reached (max_attempts s) a)"
  using assms
  by (simp add: limit_test_def object_of_def limit_reached_def split: option.splits)

lemma body_result:
  assumes m: "self_dict st ''max_attempts'' = object_of s ''max_attempts''"
    and w: "self_dict st ''wait'' = object_of s ''wait''"
    and l: "self_dict st ''linear_wait'' = object_of s ''linear_wait''"
    and b: "self_dict st ''exponential_wait'' = object_of s ''exponential_wait''"
  shows "fst (exec (get_schedule_in_body a) st) = returned (get_schedule_in s a)"
proof -
  from w have w': "self_dict st ''wait'' = Some (PyNum (wait s))"
    by (simp add: object_of_def)
  from l have l': "self_dict st ''linear_wait'' = Some (PyNum (linear_wait s))"
    by (simp add: object_of_def)
  from b have b': "self_dict st ''exponential_wait'' = Some (PyNum (exponential_wait s))"
    by (simp add: object_of_def)
  show ?thesis
    by (simp add: get_schedule_in_body_def get_schedule_in_def limit_test_object [OF m]
        attr_def w' l' b' Let_def returned_def split: sum.splits)
qed

section \<open>The default strategy and the constant backoff\<close>

text \<open>
  Claim C1 says that \<^verbatim>\<open>RetryStrategy()\<close> returns the delay \<open>0.0\<close> for every
  non-negative \<^verbatim>\<open>attempts\<close>, the term \<open>0 ** 0\<close> counting as \<open>0\<close>. The code at
  \<^verbatim>\<open>attempts = 0\<close>: the delay is \<open>0.0 + 0.0 * 0 + 0.0 ** 0\<close>, and Python's
  \<open>0.0 ** 0\<close> is \<open>1.0\<close>, so the first retry of the default strategy waits one second.
  (From the second attempt on the delay is \<open>0.0\<close>: \<open>default_strategy_later_attempts\<close>.)
\<close>

theorem default_strategy_first_attempt:
  "get_schedule_in RetryStrategy_default 0 = Inr (Some (PyFloat (Fin 1)))"
  by (simp add: eval_defs)

text \<open>
  Claim C5 says that \<^verbatim>\<open>RetryStrategy(wait=3)\<close> returns \<open>3.0\<close> for every non-negative
  \<^verbatim>\<open>attempts\<close>, as the class docstring does ("successive runs will wait 3, 3, 3, 3, 3
  seconds"). The code at \<^verbatim>\<open>attempts = 0\<close> returns \<open>3 + 0.0 * 0 + 0.0 ** 0 = 4.0\<close>.
  (From the second attempt on the delay is \<open>3.0\<close>: \<open>constant_wait_later_attempts\<close>.)
\<close>

theorem constant_wait_first_attempt:
  "get_schedule_in (RetryStrategy_default\<lparr>wait := PyInt 3\<rparr>) 0 = Inr (Some (PyFloat (Fin 4)))"
  by (simp add: eval_defs)

section \<open>The formula\<close>



section \<open>The limit on the attempts\<close>






section \<open>Exceptions of the arithmetic\<close>

text \<open>
  Claim C7 says that \<^verbatim>\<open>get_schedule_in\<close> does not throw for any strategy with
  non-negative waits and any non-negative \<^verbatim>\<open>attempts\<close>. With
  \<^verbatim>\<open>exponential_wait=10.0\<close> and \<^verbatim>\<open>attempts = 400\<close> the power \<open>10.0 ** 400\<close> is out
  of the range of a float and Python raises \<^verbatim>\<open>OverflowError\<close>.
\<close>

theorem get_schedule_in_defined_counterexample:
  "get_schedule_in \<lparr>max_attempts = None, wait = PyFloat (Fin 0), linear_wait = PyFloat (Fin 0),
      exponential_wait = PyFloat (Fin 10)\<rparr> 400 = Inl OverflowError"
  by (simp add: eval_defs)

text \<open>
  Claim C7 as the code has it: for a non-negative \<^verbatim>\<open>attempts\<close>, the method reaches a
  result (\<^verbatim>\<open>None\<close> or a number) when the limit stops the attempt, when the three
  waits are ints, or when the arithmetic stays in range (\<^const>\<open>arith_in_range\<close>).
\<close>

theorem get_schedule_in_defined:
  assumes "0 \<le> a"
    and "limit_reached (max_attempts s) a \<or> all_int s \<or> arith_in_range s a"
  shows "\<exists>r. get_schedule_in s a = Inr r"
proof (cases "limit_reached (max_attempts s) a")
  case True
  then show ?thesis by (simp add: get_schedule_in_limit)
next
  case False
  with assms(2) have "all_int s \<or> arith_in_range s a" by simp
  from get_schedule_in_returns [OF assms(1) False this] show ?thesis by blast
qed

text \<open>
  Claim C7 at three inputs: the default strategy at \<^verbatim>\<open>attempts = 0\<close>; a strategy
  stopped by its limit; and the int waits \<open>1, 1, 2\<close> at \<^verbatim>\<open>attempts = 1100\<close>, where
  the result is an int beyond the range of a float.
\<close>

theorem get_schedule_in_defined_witness:
  "(\<exists>r. get_schedule_in \<lparr>max_attempts = None, wait = PyFloat (Fin 0), linear_wait = PyFloat (Fin 0),
        exponential_wait = PyFloat (Fin 0)\<rparr> 0 = Inr r)
   \<and> (\<exists>r. get_schedule_in \<lparr>max_attempts = Some 4, wait = PyFloat (Fin 1), linear_wait = PyFloat (Fin 1),
        exponential_wait = PyFloat (Fin 10)\<rparr> 400 = Inr r)
   \<and> (\<exists>r. get_schedule_in \<lparr>max_attempts = None, wait = PyInt 1, linear_wait = PyInt 1,
        exponential_wait = PyInt 2\<rparr> 1100 = Inr r)"
proof -
  have 1: "arith_in_range \<lparr>max_attempts = None, wait = PyFloat (Fin 0), linear_wait = PyFloat (Fin 0),
        exponential_wait = PyFloat (Fin 0)\<rparr> 0"
    by (simp add: arith_in_range_def pow_in_range_def)
  have 2: "limit_reached (max_attempts \<lparr>max_attempts = Some 4, wait = PyFloat (Fin 1),
        linear_wait = PyFloat (Fin 1), exponential_wait = PyFloat (Fin 10)\<rparr>) 400"
    by (simp add: limit_reached_def)
  have 3: "all_int \<lparr>max_attempts = None, wait = PyInt 1, linear_wait = PyInt 1,
        exponential_wait = PyInt 2\<rparr>"
    by (simp add: all_int_def)
  show ?thesis
    using get_schedule_in_defined [of 0 "\<lparr>max_attempts = None, wait = PyFloat (Fin 0),
        linear_wait = PyFloat (Fin 0), exponential_wait = PyFloat (Fin 0)\<rparr>"]
      get_schedule_in_defined [of 400 "\<lparr>max_attempts = Some 4, wait = PyFloat (Fin 1),
        linear_wait = PyFloat (Fin 1), exponential_wait = PyFloat (Fin 10)\<rparr>"]
      get_schedule_in_defined [of 1100 "\<lparr>max_attempts = None, wait = PyInt 1, linear_wait = PyInt 1,
        exponential_wait = PyInt 2\<rparr>"]
      1 2 3
    by simp
qed

section \<open>Effects\<close>

text \<open>
  Claim C8 says that two calls on strategies with equal fields and equal
  \<^verbatim>\<open>attempts\<close> return equal results. Under Python's equality this fails: the fields
  \<open>1, 0, 2\<close> and \<open>1.0, 0.0, 2.0\<close> are equal, one by one, but at \<^verbatim>\<open>attempts = 53\<close>
  the int strategy returns \<open>1 + 0 * 53 + 2 ** 53 = 9007199254740993\<close> and the float
  strategy \<open>9007199254740992.0\<close> (the sum is rounded), which are not equal.
\<close>

theorem get_schedule_in_effects_counterexample:
  "max_attempts \<lparr>max_attempts = None, wait = PyInt 1, linear_wait = PyInt 0, exponential_wait = PyInt 2\<rparr>
     = max_attempts \<lparr>max_attempts = None, wait = PyFloat (Fin 1), linear_wait = PyFloat (Fin 0),
         exponential_wait = PyFloat (Fin 2)\<rparr>
   \<and> py_eq (PyInt 1) (PyFloat (Fin 1)) \<and> py_eq (PyInt 0) (PyFloat (Fin 0))
   \<and> py_eq (PyInt 2) (PyFloat (Fin 2))
   \<and> get_schedule_in \<lparr>max_attempts = None, wait = PyInt 1, linear_wait = PyInt 0,
        exponential_wait = PyInt 2\<rparr> 53 = Inr (Some (PyInt 9007199254740993))
   \<and> get_schedule_in \<lparr>max_attempts = None, wait = PyFloat (Fin 1), linear_wait = PyFloat (Fin 0),
        exponential_wait = PyFloat (Fin 2)\<rparr> 53 = Inr (Some (PyFloat (Fin 9007199254740992)))
   \<and> \<not> py_eq (PyInt 9007199254740993) (PyFloat (Fin 9007199254740992))"
  by (simp add: eval_defs nearest_double_tie)

text \<open>
  Claim C8 as the code has it: the outcome of \<^verbatim>\<open>get_schedule_in\<close> is a function of
  the four attributes (their types and values) and of \<^verbatim>\<open>attempts\<close> alone, and a call
  leaves every attribute as it was. Run the body of the method from any two states in
  which \<^verbatim>\<open>self\<close> has the four attributes of the strategy \<open>s\<close>, whatever else the
  states hold: both runs return what \<^const>\<open>get_schedule_in\<close> gives for \<open>s\<close>, and
  the attribute dictionary after the run is the one before.
\<close>

theorem get_schedule_in_effects:
  assumes "\<forall>name\<in>{''max_attempts'', ''wait'', ''linear_wait'', ''exponential_wait''}.
      self_dict st name = object_of s name \<and> self_dict st' name = object_of s name"
  shows "fst (exec (get_schedule_in_body a) st) = returned (get_schedule_in s a)
    \<and> fst (exec (get_schedule_in_body a) st') = fst (exec (get_schedule_in_body a) st)
    \<and> self_dict (snd (exec (get_schedule_in_body a) st)) = self_dict st"
proof -
  from assms have "fst (exec (get_schedule_in_body a) st) = returned (get_schedule_in s a)"
    by (intro body_result) simp_all
  moreover from assms have "fst (exec (get_schedule_in_body a) st') = returned (get_schedule_in s a)"
    by (intro body_result) simp_all
  moreover have "self_dict (snd (exec (get_schedule_in_body a) st)) = self_dict st"
    by (rule exec_keeps_attributes [OF body_stores_nothing])
  ultimately show ?thesis by simp
qed

text \<open>
  Claim C8 at a state whose object has a fifth attribute and whose frame already
  binds \<^verbatim>\<open>wait\<close>, against the plain state of the same strategy.
\<close>

theorem get_schedule_in_effects_witness:
  "self_dict \<lparr>self_dict = (object_of \<lparr>max_attempts = Some 5, wait = PyInt 1, linear_wait = PyInt 2,
            exponential_wait = PyInt 3\<rparr>)(''note'' \<mapsto> PyNone),
          local_vars = [''wait'' \<mapsto> PyNum (PyInt 7)]\<rparr> ''max_attempts''
        = object_of \<lparr>max_attempts = Some 5, wait = PyInt 1, linear_wait = PyInt 2,
            exponential_wait = PyInt 3\<rparr> ''max_attempts''
   \<and> self_dict \<lparr>self_dict = (object_of \<lparr>max_attempts = Some 5, wait = PyInt 1, linear_wait = PyInt 2,
            exponential_wait = PyInt 3\<rparr>)(''note'' \<mapsto> PyNone),
          local_vars = [''wait'' \<mapsto> PyNum (PyInt 7)]\<rparr> ''wait''
        = object_of \<lparr>max_attempts = Some 5, wait = PyInt 1, linear_wait = PyInt 2,
            exponential_wait = PyInt 3\<rparr> ''wait''
   \<and> self_dict \<lparr>self_dict = (object_of \<lparr>max_attempts = Some 5, wait = PyInt 1, linear_wait = PyInt 2,
            exponential_wait = PyInt 3\<rparr>)(''note'' \<mapsto> PyNone),
          local_vars = [''wait'' \<mapsto> PyNum (PyInt 7)]\<rparr> ''linear_wait''
        = object_of \<lparr>max_attempts = Some 5, wait = PyInt 1, linear_wait = PyInt 2,
            exponential_wait = PyInt 3\<rparr> ''linear_wait''
   \<and> self_dict \<lparr>self_dict = (object_of \<lparr>max_attempts = Some 5, wait = PyInt 1, linear_wait = PyInt 2,
            exponential_wait = PyInt 3\<rparr>)(''note'' \<mapsto> PyNone),
          local_vars = [''wait'' \<mapsto> PyNum (PyInt 7)]\<rparr> ''exponential_wait''
        = object_of \<lparr>max_attempts = Some 5, wait = PyInt 1, linear_wait = PyInt 2,
            exponential_wait = PyInt 3\<rparr> ''exponential_wait''
   \<and> fst (exec (get_schedule_in_body 2)
        \<lparr>self_dict = (object_of \<lparr>max_attempts = Some 5, wait = PyInt 1, linear_wait = PyInt 2,
            exponential_wait = PyInt 3\<rparr>)(''note'' \<mapsto> PyNone),
          local_vars = [''wait'' \<mapsto> PyNum (PyInt 7)]\<rparr>)
      = Inr (PyNum (PyInt 14))
   \<and> fst (exec (get_schedule_in_body 2)
        \<lparr>self_dict = object_of \<lparr>max_attempts = Some 5, wait = PyInt 1, linear_wait = PyInt 2,
            exponential_wait = PyInt 3\<rparr>, local_vars = Map.empty\<rparr>)
      = Inr (PyNum (PyInt 14))
   \<and> self_dict (snd (exec (get_schedule_in_body 2)
        \<lparr>self_dict = (object_of \<lparr>max_attempts = Some 5, wait = PyInt 1, linear_wait = PyInt 2,
            exponential_wait = PyInt 3\<rparr>)(''note'' \<mapsto> PyNone),
          local_vars = [''wait'' \<mapsto> PyNum (PyInt 7)]\<rparr>))
      = (object_of \<lparr>max_attempts = Some 5, wait = PyInt 1, linear_wait = PyInt 2,
            exponential_wait = PyInt 3\<rparr>)(''note'' \<mapsto> PyNone)"
proof -
  have h: "\<forall>name\<in>{''max_attempts'', ''wait'', ''linear_wait'', ''exponential_wait''}.
      self_dict \<lparr>self_dict = (object_of \<lparr>max_attempts = Some 5, wait = PyInt 1, linear_wait = PyInt 2,
            exponential_wait = PyInt 3\<rparr>)(''note'' \<mapsto> PyNone),
          local_vars = [''wait'' \<mapsto> PyNum (PyInt 7)]\<rparr> name
        = object_of \<lparr>max_attempts = Some 5, wait = PyInt 1, linear_wait = PyInt 2,
            exponential_wait = PyInt 3\<rparr> name
      \<and> self_dict \<lparr>self_dict = object_of \<lparr>max_attempts = Some 5, wait = PyInt 1, linear_wait = PyInt 2,
            exponential_wait = PyInt 3\<rparr>, local_vars = Map.empty\<rparr> name
        = object_of \<lparr>max_attempts = Some 5, wait = PyInt 1, linear_wait = PyInt 2,
            exponential_wait = PyInt 3\<rparr> name"
    by simp
  have v: "get_schedule_in \<lparr>max_attempts = Some 5, wait = PyInt 1, linear_wait = PyInt 2,
            exponential_wait = PyInt 3\<rparr> 2 = Inr (Some (PyInt 14))"
    by (simp add: get_schedule_in_def limit_reached_def)
  from h v get_schedule_in_effects [OF h, of 2] show ?thesis
    by (simp add: returned_def)
qed

section \<open>From the delay to the retry decision\<close>

text \<open>
  Claim C6 says that \<^verbatim>\<open>get_retry_exception\<close> returns a decision whenever
  \<^verbatim>\<open>get_schedule_in\<close> returns a delay. With \<^verbatim>\<open>exponential_wait=2.0\<close> at
  \<^verbatim>\<open>attempts = 38\<close> the delay is \<open>2.0 ** 38 = 274877906944.0\<close> seconds, some 8710
  years: on the first day of 2026 the sum is past the year 9999, the addition raises
  \<^verbatim>\<open>OverflowError\<close>, and so does the method.
\<close>

theorem get_retry_exception_follows_schedule_counterexample:
  "get_schedule_in \<lparr>max_attempts = None, wait = PyFloat (Fin 0), linear_wait = PyFloat (Fin 0),
      exponential_wait = PyFloat (Fin 2)\<rparr> 38 = Inr (Some (PyFloat (Fin 274877906944)))
   \<and> get_retry_exception
        (get_schedule_in \<lparr>max_attempts = None, wait = PyFloat (Fin 0), linear_wait = PyFloat (Fin 0),
          exponential_wait = PyFloat (Fin 2)\<rparr>)
        new_year_2026 datetime_add 38 = Inl OverflowError"
  by (simp add: eval_defs get_retry_exception_def datetime_add_def timedelta_microseconds_def
      datetime_max_def new_year_2026_def round_half_even_def)

text \<open>
  Claim C6 as the code has it: for every strategy and every \<^verbatim>\<open>attempts\<close>,
  \<^verbatim>\<open>get_retry_exception\<close> returns \<^verbatim>\<open>None\<close> exactly when \<^verbatim>\<open>get_schedule_in\<close>
  returns \<^verbatim>\<open>None\<close>; and when \<^verbatim>\<open>get_schedule_in\<close> returns a delay and the library
  adds it to the current time, the method returns the decision that carries that
  timestamp. The clock is an input of the model, and the addition is the library's.
\<close>

theorem get_retry_exception_follows_schedule:
  "(get_retry_exception strat now add_seconds a = Inr None \<longleftrightarrow> strat a = Inr None)
   \<and> (strat a = Inr (Some d) \<and> add_seconds now d = Inr t \<longrightarrow>
        get_retry_exception strat now add_seconds a = Inr (Some (JobRetry t)))"
  by (simp add: get_retry_exception_def split: sum.splits option.splits)

text \<open>
  Claim C6 on the first day of 2026, for \<^verbatim>\<open>RetryStrategy(max_attempts=3, wait=3)\<close>:
  the decision at \<^verbatim>\<open>attempts = 1\<close> is for three seconds later, and there is none at
  \<^verbatim>\<open>attempts = 3\<close>.
\<close>

theorem get_retry_exception_follows_schedule_witness:
  "get_schedule_in \<lparr>max_attempts = Some 3, wait = PyInt 3, linear_wait = PyFloat (Fin 0),
      exponential_wait = PyFloat (Fin 0)\<rparr> 1 = Inr (Some (PyFloat (Fin 3)))
   \<and> datetime_add new_year_2026 (PyFloat (Fin 3)) = Inr (new_year_2026 + 3000000)
   \<and> get_retry_exception
        (get_schedule_in \<lparr>max_attempts = Some 3, wait = PyInt 3, linear_wait = PyFloat (Fin 0),
          exponential_wait = PyFloat (Fin 0)\<rparr>)
        new_year_2026 datetime_add 1
      = Inr (Some (JobRetry (new_year_2026 + 3000000)))
   \<and> get_retry_exception
        (get_schedule_in \<lparr>max_attempts = Some 3, wait = PyInt 3, linear_wait = PyFloat (Fin 0),
          exponential_wait = PyFloat (Fin 0)\<rparr>)
        new_year_2026 datetime_add 3
      = Inr None"
proof -
  have d: "get_schedule_in \<lparr>max_attempts = Some 3, wait = PyInt 3, linear_wait = PyFloat (Fin 0),
      exponential_wait = PyFloat (Fin 0)\<rparr> 1 = Inr (Some (PyFloat (Fin 3)))"
    by (simp add: eval_defs)
  have n: "get_schedule_in \<lparr>max_attempts = Some 3, wait = PyInt 3, linear_wait = PyFloat (Fin 0),
      exponential_wait = PyFloat (Fin 0)\<rparr> 3 = Inr None"
    by (simp add: eval_defs)
  have t: "datetime_add new_year_2026 (PyFloat (Fin 3)) = Inr (new_year_2026 + 3000000)"
    by (simp add: datetime_add_def timedelta_microseconds_def datetime_max_def new_year_2026_def
        round_half_even_def nearest_double_0)
  from d n t
    get_retry_exception_follows_schedule [of
      "get_schedule_in \<lparr>max_attempts = Some 3, wait = PyInt 3, linear_wait = PyFloat (Fin 0),
        exponential_wait = PyFloat (Fin 0)\<rparr>"
      new_year_2026 datetime_add 1 "PyFloat (Fin 3)" "new_year_2026 + 3000000"]
    get_retry_exception_follows_schedule [of
      "get_schedule_in \<lparr>max_attempts = Some 3, wait = PyInt 3, linear_wait = PyFloat (Fin 0),
        exponential_wait = PyFloat (Fin 0)\<rparr>"
      new_year_2026 datetime_add 3 "PyFloat (Fin 3)" "new_year_2026 + 3000000"]
  show ?thesis by blast
qed

section \<open>The retry value\<close>

text \<open>
  Claim C2: \<^verbatim>\<open>get_retry_strategy\<close> on each member of the union. A falsy value
  (\<^verbatim>\<open>False\<close>, \<open>0\<close>) gives \<^verbatim>\<open>None\<close>; \<^verbatim>\<open>True\<close> gives the default strategy; a
  positive integer \<open>n\<close> gives the default strategy with \<^verbatim>\<open>max_attempts = n\<close>; a
  strategy is returned as it is. No operation of the function can raise (a truth test,
  an identity test, an \<^verbatim>\<open>isinstance\<close> test and a constructor without validators), so
  it is a total function of the union.
\<close>

theorem get_retry_strategy_cases:
  "(\<not> truthy r \<longrightarrow> get_retry_strategy r = None)
   \<and> get_retry_strategy (RetryBool False) = None
   \<and> get_retry_strategy (RetryInt 0) = None
   \<and> get_retry_strategy (RetryBool True) =
       Some \<lparr>max_attempts = None, wait = PyFloat (Fin 0), linear_wait = PyFloat (Fin 0),
             exponential_wait = PyFloat (Fin 0)\<rparr>
   \<and> (0 < n \<longrightarrow> get_retry_strategy (RetryInt n) =
       Some \<lparr>max_attempts = Some n, wait = PyFloat (Fin 0), linear_wait = PyFloat (Fin 0),
             exponential_wait = PyFloat (Fin 0)\<rparr>)
   \<and> get_retry_strategy (RetryObj s) = Some s"
  by (simp add: get_retry_strategy_def RetryStrategy_default_def)

text \<open>
  Claim C2 at the falsy \<open>0\<close>, at the integer \<open>5\<close> and at a strategy object.
\<close>

theorem get_retry_strategy_cases_witness:
  "\<not> truthy (RetryInt 0) \<and> get_retry_strategy (RetryInt 0) = None
   \<and> (0::int) < 5
   \<and> get_retry_strategy (RetryInt 5) =
       Some \<lparr>max_attempts = Some 5, wait = PyFloat (Fin 0), linear_wait = PyFloat (Fin 0),
             exponential_wait = PyFloat (Fin 0)\<rparr>
   \<and> get_retry_strategy (RetryObj \<lparr>max_attempts = Some 2, wait = PyInt 1,
         linear_wait = PyFloat (Fin 0), exponential_wait = PyFloat (Fin 2)\<rparr>) =
       Some \<lparr>max_attempts = Some 2, wait = PyInt 1, linear_wait = PyFloat (Fin 0),
             exponential_wait = PyFloat (Fin 2)\<rparr>"
  using get_retry_strategy_cases [of "RetryInt 0" 5
      "\<lparr>max_attempts = Some 2, wait = PyInt 1, linear_wait = PyFloat (Fin 0),
        exponential_wait = PyFloat (Fin 2)\<rparr>"]
  by simp

text \<open>
  Claim C10: for a negative integer \<open>n\<close>, \<^verbatim>\<open>get_retry_strategy(n)\<close> is the default
  strategy with \<^verbatim>\<open>max_attempts = n\<close>, and that strategy returns \<^verbatim>\<open>None\<close> for every
  non-negative \<^verbatim>\<open>attempts\<close>: it never schedules a retry.
\<close>

theorem negative_retry_never_schedules:
  assumes "n < 0" and "0 \<le> a"
  shows "get_retry_strategy (RetryInt n) =
      Some \<lparr>max_attempts = Some n, wait = PyFloat (Fin 0), linear_wait = PyFloat (Fin 0),
            exponential_wait = PyFloat (Fin 0)\<rparr>
    \<and> get_schedule_in
        \<lparr>max_attempts = Some n, wait = PyFloat (Fin 0), linear_wait = PyFloat (Fin 0),
         exponential_wait = PyFloat (Fin 0)\<rparr> a
      = Inr None"
  using assms
  by (simp add: get_retry_strategy_def RetryStrategy_default_def get_schedule_in_def limit_reached_def)

text \<open>
  Claim C10 at \<open>n = -2\<close> and \<^verbatim>\<open>attempts = 0\<close>.
\<close>

theorem negative_retry_never_schedules_witness:
  "(- 2::int) < 0 \<and> (0::int) \<le> 0
   \<and> get_retry_strategy (RetryInt (- 2)) =
      Some \<lparr>max_attempts = Some (- 2), wait = PyFloat (Fin 0), linear_wait = PyFloat (Fin 0),
            exponential_wait = PyFloat (Fin 0)\<rparr>
   \<and> get_schedule_in
        \<lparr>max_attempts = Some (- 2), wait = PyFloat (Fin 0), linear_wait = PyFloat (Fin 0),
         exponential_wait = PyFloat (Fin 0)\<rparr> 0
      = Inr None"
  using negative_retry_never_schedules [of "- 2" 0]
  by simp

end
